theory Spec2Isabelle
  imports Main
begin

section \<open>The C\# source generator of Cantera's sourcegen\<close>

text \<open>
  A shallow embedding of \<^verbatim>\<open>interfaces/sourcegen/sourcegen/csharp/_SourceGenerator.py\<close>.
  Python identifiers that start with an underscore lose it (\<^verbatim>\<open>_convert_func\<close> is
  \<open>convert_func\<close>, \<^verbatim>\<open>_CsFunc\<close> is \<open>CsFunc\<close>), since an Isabelle name cannot
  start with one. Strings are \<open>char list\<close>; identifiers and type names are taken to
  be ASCII, as C declarations are.
\<close>

subsection \<open>Data\<close>

text \<open>
  \<^verbatim>\<open>Param\<close> and \<^verbatim>\<open>Func\<close> come from \<^verbatim>\<open>_types\<close>; the generator unpacks a
  \<^verbatim>\<open>Param\<close> into a type and a name, and a \<^verbatim>\<open>Func\<close> into a return type, a name and a
  parameter list. The field \<^verbatim>\<open>Param.name\<close> is called \<open>p_name\<close> here, because
  \<open>name\<close> is the field of \<open>Func\<close>. \<^verbatim>\<open>_CsFunc\<close> has the three fields of \<^verbatim>\<open>Func\<close> and
  \<^verbatim>\<open>del_clazz\<close>, so it is written as an extension of \<open>Func\<close>.
\<close>

record Param =
  p_type :: string
  p_name :: string

record Func =
  ret_type :: string
  name :: string
  params :: "Param list"

record CsFunc = Func +
  del_clazz :: "string option"

text \<open>
  The configuration dictionary; \<^verbatim>\<open>_convert_func\<close> and \<^verbatim>\<open>_get_property_text\<close> read
  only its entry \<^verbatim>\<open>handle_crosswalk\<close>.
\<close>

record Config =
  handle_crosswalk :: "string \<rightharpoonup> string"

text \<open>The dictionary \<^verbatim>\<open>self._known_funcs\<close>.\<close>

type_synonym registry = "string \<rightharpoonup> CsFunc"

text \<open>
  The exceptions the code can raise. \<^verbatim>\<open>ValueError\<close> carries its message, \<^verbatim>\<open>KeyError\<close>
  the missing key; \<^verbatim>\<open>IndexError\<close> is a list index out of range.
\<close>

datatype error = ValueError string | KeyError string | IndexError

subsection \<open>String helpers of Python\<close>

definition startswith :: "string \<Rightarrow> string \<Rightarrow> bool" where
  "startswith s pre = (take (length pre) s = pre)"

definition endswith :: "string \<Rightarrow> string \<Rightarrow> bool" where
  "endswith s suf = (length suf \<le> length s \<and> drop (length s - length suf) s = suf)"

text \<open>
  \<^verbatim>\<open>name.split('_', 1)\<close> followed by the unpacking into two variables: the text
  before the first underscore and the text after it. With no underscore the split has
  one element and the unpacking raises \<^verbatim>\<open>ValueError\<close>: that is \<open>None\<close> here.
\<close>

fun split_first :: "string \<Rightarrow> (string \<times> string) option" where
  "split_first [] = None"
| "split_first (c # cs) =
     (if c = CHR ''_'' then Some ([], cs)
      else (case split_first cs of
              None \<Rightarrow> None
            | Some (a, b) \<Rightarrow> Some (c # a, b)))"

definition is_upper :: "char \<Rightarrow> bool" where
  "is_upper c = (let n = (of_char c :: nat) in 65 \<le> n \<and> n \<le> 90)"

text \<open>
  \<^verbatim>\<open>re.match('^set_[A-Z]{2}$', method)\<close>. In Python \<^verbatim>\<open>$\<close> matches at the end of the
  string and also just before a newline that ends the string.
\<close>

definition match_set_pair :: "string \<Rightarrow> bool" where
  "match_set_pair method =
     (take 4 method = ''set_'' \<and>
      (let r = drop 4 method in
         (length r = 2 \<or> (length r = 3 \<and> r ! 2 = CHR 0x0A)) \<and>
         is_upper (r ! 0) \<and> is_upper (r ! 1)))"

subsection \<open>The type tables\<close>

definition type_map :: "(string \<times> string) list" where
  "type_map =
     [(''const char*'', ''string''),
      (''const double*'', ''double[]''),
      (''size_t'', ''nuint''),
      (''char*'', ''byte*'')]"

definition prop_type_map :: "(string \<times> string) list" where
  "prop_type_map =
     [(''byte*'', ''string''),
      (''double*'', ''double[]'')]"

text \<open>
  The loop \<^verbatim>\<open>for c_type, cs_type in self._type_map.items(): if t == c_type: t = cs_type; break\<close>:
  the first entry whose key is the type replaces it, a type with no entry stays.
\<close>

fun map_type :: "(string \<times> string) list \<Rightarrow> string \<Rightarrow> string" where
  "map_type [] t = t"
| "map_type ((c_type, cs_type) # rest) t = (if t = c_type then cs_type else map_type rest t)"

subsection \<open>\<^verbatim>\<open>_convert_func\<close>\<close>

text \<open>
  Lines 104 to 118: the handle substitution. The result is the return type, the copied
  parameter list and \<^verbatim>\<open>del_clazz\<close> as they stand before the type loops.
  \<^verbatim>\<open>self._config['handle_crosswalk'][clazz]\<close> raises \<^verbatim>\<open>KeyError\<close> for a missing class and
  \<^verbatim>\<open>params[0]\<close> raises \<^verbatim>\<open>IndexError\<close> on an empty list.
\<close>

definition handle_subst ::
  "Config \<Rightarrow> string \<Rightarrow> string \<Rightarrow> string \<Rightarrow> Param list \<Rightarrow>
     error + (string \<times> Param list \<times> string option)" where
  "handle_subst config clazz method rt ps =
     (if clazz \<noteq> ''ct'' then
        (case handle_crosswalk config clazz of
           None \<Rightarrow> Inl (KeyError clazz)
         | Some h \<Rightarrow>
             (let handle_clazz = h @ ''Handle'' in
                if startswith method ''del'' then Inr (rt, ps, Some handle_clazz)
                else if startswith method ''new'' then Inr (handle_clazz, ps, None)
                else (case ps of
                        [] \<Rightarrow> Inl IndexError
                      | p # rest \<Rightarrow>
                          Inr (rt, \<lparr>p_type = handle_clazz, p_name = p_name p\<rparr> # rest, None))))
      else Inr (rt, ps, None))"

text \<open>
  Lines 128 to 133: the type of one parameter after the loop over \<^verbatim>\<open>_type_map\<close>, the
  value that line 137 compares with \<^verbatim>\<open>'double*'\<close>.
\<close>

definition mapped_type :: "Param \<Rightarrow> string" where
  "mapped_type p = map_type type_map (p_type p)"

definition arity_message :: "string \<Rightarrow> string" where
  "arity_message nm = ''Cannot scaffold '' @ nm @ '' with more than one array of doubles!''"

text \<open>
  Lines 125 to 154: the loop over the parameters, from index \<open>i\<close> on, with
  \<^verbatim>\<open>setter_double_arrays_count\<close> as the accumulator \<open>cnt\<close>. The raise at line 143 ends
  the loop with the error.
\<close>

fun convert_params ::
  "string \<Rightarrow> string \<Rightarrow> string \<Rightarrow> nat \<Rightarrow> Param list \<Rightarrow> error + Param list" where
  "convert_params nm clazz method cnt [] = Inr []"
| "convert_params nm clazz method cnt (p # ps) =
     (let param_type = mapped_type p in
        if param_type = ''double*'' \<and> startswith method ''set'' then
          (let cnt' = cnt + 1 in
             if cnt' > 1 then Inl (ValueError (arity_message nm))
             else
               (let param_type' =
                      (if clazz = ''thermo'' \<and> match_set_pair method
                       then ''(double, double)*'' else ''double[]'')
                in (case convert_params nm clazz method cnt' ps of
                      Inl e \<Rightarrow> Inl e
                    | Inr ps' \<Rightarrow> Inr (\<lparr>p_type = param_type', p_name = p_name p\<rparr> # ps'))))
        else
          (case convert_params nm clazz method cnt ps of
             Inl e \<Rightarrow> Inl e
           | Inr ps' \<Rightarrow> Inr (\<lparr>p_type = param_type, p_name = p_name p\<rparr> # ps')))"

definition unpack_message :: string where
  "unpack_message = ''not enough values to unpack (expected 2, got 1)''"

text \<open>
  The whole method: the result, and the registry after the call. An exception leaves
  the registry as it was, since line 157 is the only write and comes last.
\<close>

definition convert_func ::
  "Config \<Rightarrow> registry \<Rightarrow> Func \<Rightarrow> (error + CsFunc) \<times> registry" where
  "convert_func config known_funcs parsed =
     (case split_first (name parsed) of
        None \<Rightarrow> (Inl (ValueError unpack_message), known_funcs)
      | Some (clazz, method) \<Rightarrow>
          (case handle_subst config clazz method (ret_type parsed) (params parsed) of
             Inl e \<Rightarrow> (Inl e, known_funcs)
           | Inr (rt, ps, dc) \<Rightarrow>
               (let rt' = map_type type_map rt in
                  case convert_params (name parsed) clazz method 0 ps of
                    Inl e \<Rightarrow> (Inl e, known_funcs)
                  | Inr ps' \<Rightarrow>
                      (let func = \<lparr>ret_type = rt', name = name parsed, params = ps',
                                   del_clazz = dc\<rparr>
                       in (Inr func, known_funcs(name parsed \<mapsto> func))))))"

subsection \<open>\<^verbatim>\<open>_join_params\<close> and \<^verbatim>\<open>_get_function_text\<close>\<close>

text \<open>\<^verbatim>\<open>sep.join(xs)\<close> and \<^verbatim>\<open>any(xs)\<close>, which stops at the first true element.\<close>

fun py_join :: "string \<Rightarrow> string list \<Rightarrow> string" where
  "py_join sep [] = []"
| "py_join sep [x] = x"
| "py_join sep (x # y # ys) = x @ sep @ py_join sep (y # ys)"

fun py_any :: "bool list \<Rightarrow> bool" where
  "py_any [] = False"
| "py_any (b # bs) = (if b then True else py_any bs)"

definition join_params :: "Param list \<Rightarrow> string" where
  "join_params ps = py_join '', '' (map (\<lambda>p. p_type p @ '' '' @ p_name p) ps)"

definition NL :: string where
  "NL = [CHR 0x0A]"

definition sp :: "nat \<Rightarrow> string" where
  "sp n = replicate n (CHR '' '')"

text \<open>
  \<^verbatim>\<open>normalize\<close> comes from \<^verbatim>\<open>_helpers\<close>, which is not among the sources: it is a
  parameter of everything that calls it, written \<open>normalise\<close>. \<^verbatim>\<open>_prolog\<close> is
  \<^verbatim>\<open>normalize\<close> of a literal.
\<close>

definition prolog :: "(string \<Rightarrow> string) \<Rightarrow> string" where
  "prolog normalise =
     normalise (NL @ sp 8 @ ''[DllImport(LibFile)]'' @ NL @ sp 8 @ ''public static extern''
                @ NL @ sp 4)"

definition get_function_text :: "(string \<Rightarrow> string) \<Rightarrow> CsFunc \<Rightarrow> string" where
  "get_function_text normalise function =
     (let is_unsafe = py_any (map (\<lambda>p. endswith (p_type p) ''*'') (params function));
          params_text = join_params (params function)
      in if is_unsafe
         then prolog normalise @ '' unsafe '' @ ret_type function @ '' '' @ name function
              @ ''('' @ params_text @ '');''
         else prolog normalise @ '' '' @ ret_type function @ '' '' @ name function
              @ ''('' @ params_text @ '');'')"

subsection \<open>The conversion pass of \<^verbatim>\<open>generate_source\<close>\<close>

text \<open>
  Line 220, \<^verbatim>\<open>cs_funcs = [self._convert_func(f) for f in funcs]\<close>: the signatures are
  converted in order, each call seeing the registry the one before left; the first
  exception ends the comprehension.
\<close>

fun cs_funcs :: "Config \<Rightarrow> registry \<Rightarrow> Func list \<Rightarrow> (error + CsFunc list) \<times> registry" where
  "cs_funcs config known_funcs [] = (Inr [], known_funcs)"
| "cs_funcs config known_funcs (f # fs) =
     (case convert_func config known_funcs f of
        (Inl e, known') \<Rightarrow> (Inl e, known')
      | (Inr cf, known') \<Rightarrow>
          (case cs_funcs config known' fs of
             (Inl e, known'') \<Rightarrow> (Inl e, known'')
           | (Inr cfs, known'') \<Rightarrow> (Inr (cf # cfs), known'')))"

text \<open>The declaration text of every function of the unit, in order (the generator of line 222).\<close>

definition declaration_texts ::
  "(string \<Rightarrow> string) \<Rightarrow> Config \<Rightarrow> registry \<Rightarrow> Func list \<Rightarrow> error + string list" where
  "declaration_texts normalise config known_funcs funcs =
     (case fst (cs_funcs config known_funcs funcs) of
        Inl e \<Rightarrow> Inl e
      | Inr cfs \<Rightarrow> Inr (map (get_function_text normalise) cfs))"

text \<open>Line 222: \<^verbatim>\<open>functions_text\<close>, the declarations joined by an empty line.\<close>

definition functions_text ::
  "(string \<Rightarrow> string) \<Rightarrow> Config \<Rightarrow> registry \<Rightarrow> Func list \<Rightarrow> error + string" where
  "functions_text normalise config known_funcs funcs =
     (case declaration_texts normalise config known_funcs funcs of
        Inl e \<Rightarrow> Inl e
      | Inr ts \<Rightarrow> Inr (py_join (NL @ NL) ts))"

subsection \<open>\<^verbatim>\<open>_get_property_text\<close>\<close>

definition to_upper :: "char \<Rightarrow> char" where
  "to_upper c = (let n = (of_char c :: nat) in if 97 \<le> n \<and> n \<le> 122 then char_of (n - 32) else c)"

definition to_lower :: "char \<Rightarrow> char" where
  "to_lower c = (let n = (of_char c :: nat) in if 65 \<le> n \<and> n \<le> 90 then char_of (n + 32) else c)"

text \<open>
  \<^verbatim>\<open>str.capitalize()\<close> on ASCII text: the first character in upper case, all the others
  in lower case.
\<close>

fun capitalize :: "string \<Rightarrow> string" where
  "capitalize [] = []"
| "capitalize (c # cs) = to_upper c # map to_lower cs"

text \<open>
  Lines 163 to 173: the getter and the type of the property. A \<^verbatim>\<open>_CsFunc\<close> is always
  truthy (the class defines neither \<^verbatim>\<open>__bool__\<close> nor \<^verbatim>\<open>__len__\<close>), so
  \<^verbatim>\<open>if (getter)\<close> asks whether the key was in the dictionary. In the other branch the
  indexing of the dictionary, \<^verbatim>\<open>params[-1]\<close> and the indexing of \<^verbatim>\<open>_prop_type_map\<close> can
  each raise.
\<close>

definition resolve_getter :: "registry \<Rightarrow> string \<Rightarrow> string \<Rightarrow> error + (CsFunc \<times> string)" where
  "resolve_getter known_funcs clazz c_name =
     (case known_funcs (clazz @ ''_'' @ c_name) of
        Some getter \<Rightarrow> Inr (getter, ret_type getter)
      | None \<Rightarrow>
          (case known_funcs (clazz @ ''_get'' @ capitalize c_name) of
             None \<Rightarrow> Inl (KeyError (clazz @ ''_get'' @ capitalize c_name))
           | Some getter \<Rightarrow>
               (if params getter = [] then Inl IndexError
                else (case map_of prop_type_map (p_type (last (params getter))) of
                        None \<Rightarrow> Inl (KeyError (p_type (last (params getter))))
                      | Some prop_type \<Rightarrow> Inr (getter, prop_type)))))"

text \<open>The pieces of text of lines 178 to 212.\<close>

definition scalar_getter_text :: "string \<Rightarrow> string \<Rightarrow> string \<Rightarrow> string" where
  "scalar_getter_text prop_type cs_name getter_name =
     NL @ sp 16 @ ''public '' @ prop_type @ '' '' @ cs_name
     @ NL @ sp 16 @ ''{''
     @ NL @ sp 20 @ ''get => InteropUtil.CheckReturn(''
     @ NL @ sp 24 @ ''LibCantera.'' @ getter_name @ ''(_handle));''"

definition string_getter_text :: "string \<Rightarrow> string \<Rightarrow> string \<Rightarrow> string" where
  "string_getter_text cs_name getter_name length_type =
     NL @ sp 16 @ ''public unsafe string '' @ cs_name
     @ NL @ sp 16 @ ''{''
     @ NL @ sp 20 @ ''get => InteropUtil.GetString(40, (length, buffer) =>''
     @ NL @ sp 24 @ ''LibCantera.'' @ getter_name @ ''(_handle, ('' @ length_type
     @ '') length, buffer));''
     @ NL @ sp 12"

definition setter_text :: "CsFunc option \<Rightarrow> string" where
  "setter_text setter =
     (case setter of
        None \<Rightarrow> []
      | Some s \<Rightarrow>
          NL @ sp 20 @ ''set => InteropUtil.CheckReturn(''
          @ NL @ sp 24 @ ''LibCantera.'' @ name s @ ''(_handle, value));'')"

definition closing_text :: string where
  "closing_text = NL @ sp 16 @ ''}'' @ NL @ sp 12"

definition unsupported_message :: "string \<Rightarrow> string" where
  "unsupported_message prop_type = ''Unable to scaffold properties of type '' @ prop_type @ ''!''"

definition get_property_text ::
  "(string \<Rightarrow> string) \<Rightarrow> registry \<Rightarrow> string \<Rightarrow> string \<Rightarrow> string \<Rightarrow> error + string" where
  "get_property_text normalise known_funcs clazz c_name cs_name =
     (case resolve_getter known_funcs clazz c_name of
        Inl e \<Rightarrow> Inl e
      | Inr (getter, prop_type) \<Rightarrow>
          (let setter = known_funcs (clazz @ ''_set'' @ capitalize c_name) in
             if prop_type \<in> set [''int'', ''double''] then
               Inr (normalise (scalar_getter_text prop_type cs_name (name getter)
                               @ setter_text setter @ closing_text))
             else if prop_type = ''string'' then
               (if length (params getter) < 2 then Inl IndexError
                else Inr (normalise (string_getter_text cs_name (name getter)
                                       (p_type (params getter ! 1))
                                     @ setter_text setter @ closing_text)))
             else Inl (ValueError (unsupported_message prop_type))))"

subsection \<open>Words of the specification\<close>

text \<open>
  The number of parameters of a list whose mapped type is the raw mutable numeric
  pointer, the type such a parameter of a setter gets, and one parameter after the
  type table and the setter rule.
\<close>

definition double_arrays :: "Param list \<Rightarrow> nat" where
  "double_arrays ps = length (filter (\<lambda>p. mapped_type p = ''double*'') ps)"

definition array_type :: "string \<Rightarrow> string \<Rightarrow> string" where
  "array_type clazz method =
     (if clazz = ''thermo'' \<and> match_set_pair method then ''(double, double)*'' else ''double[]'')"

definition rewritten_param :: "string \<Rightarrow> string \<Rightarrow> Param \<Rightarrow> Param" where
  "rewritten_param clazz method p =
     \<lparr>p_type = (if mapped_type p = ''double*'' \<and> startswith method ''set''
                then array_type clazz method else mapped_type p),
      p_name = p_name p\<rparr>"

text \<open>A configuration, a registry and signatures to run the functions on.\<close>

definition example_config :: Config where
  "example_config =
     \<lparr>handle_crosswalk = [''thermo'' \<mapsto> ''ThermoPhase'', ''shape'' \<mapsto> ''Shape'']\<rparr>"

definition int_n :: Param where
  "int_n = \<lparr>p_type = ''int'', p_name = ''n''\<rparr>"

definition shape_area :: Func where
  "shape_area =
     \<lparr>ret_type = ''double'', name = ''shape_area'',
      params = [int_n, \<lparr>p_type = ''size_t'', p_name = ''k''\<rparr>]\<rparr>"

definition shape_setData :: Func where
  "shape_setData =
     \<lparr>ret_type = ''int'', name = ''shape_setData'',
      params = [int_n, \<lparr>p_type = ''size_t'', p_name = ''len''\<rparr>,
                \<lparr>p_type = ''double*'', p_name = ''data''\<rparr>]\<rparr>"

definition shape_setPair :: Func where
  "shape_setPair =
     \<lparr>ret_type = ''int'', name = ''shape_setPair'',
      params = [int_n, \<lparr>p_type = ''double*'', p_name = ''a''\<rparr>,
                \<lparr>p_type = ''double*'', p_name = ''b''\<rparr>]\<rparr>"

definition thermo_set_TP :: Func where
  "thermo_set_TP =
     \<lparr>ret_type = ''int'', name = ''thermo_set_TP'',
      params = [int_n, \<lparr>p_type = ''double*'', p_name = ''vals''\<rparr>]\<rparr>"

definition shape_new :: Func where
  "shape_new = \<lparr>ret_type = ''int'', name = ''shape_new'', params = []\<rparr>"

definition shape_del :: Func where
  "shape_del = \<lparr>ret_type = ''int'', name = ''shape_del'', params = [int_n]\<rparr>"

definition thing_size :: Func where
  "thing_size = \<lparr>ret_type = ''size_t'', name = ''thing_size'', params = [int_n]\<rparr>"

definition ct_setLogWriter :: Func where
  "ct_setLogWriter =
     \<lparr>ret_type = ''const char*'', name = ''ct_setLogWriter'',
      params = [\<lparr>p_type = ''double*'', p_name = ''buf''\<rparr>,
                \<lparr>p_type = ''char*'', p_name = ''msg''\<rparr>]\<rparr>"

text \<open>Converted functions, as \<^verbatim>\<open>_convert_func\<close> leaves them in the registry.\<close>

definition thermo_handle :: Param where
  "thermo_handle = \<lparr>p_type = ''ThermoPhaseHandle'', p_name = ''n''\<rparr>"

definition thermo_density :: CsFunc where
  "thermo_density =
     \<lparr>ret_type = ''double'', name = ''thermo_density'', params = [thermo_handle],
      del_clazz = None\<rparr>"

definition thermo_setDensity :: CsFunc where
  "thermo_setDensity =
     \<lparr>ret_type = ''int'', name = ''thermo_setDensity'',
      params = [thermo_handle, \<lparr>p_type = ''double'', p_name = ''rho''\<rparr>],
      del_clazz = None\<rparr>"

definition thermo_nAtoms :: CsFunc where
  "thermo_nAtoms =
     \<lparr>ret_type = ''nuint'', name = ''thermo_nAtoms'', params = [thermo_handle],
      del_clazz = None\<rparr>"

definition thermo_getName :: CsFunc where
  "thermo_getName =
     \<lparr>ret_type = ''int'', name = ''thermo_getName'',
      params = [thermo_handle, \<lparr>p_type = ''nuint'', p_name = ''lennm''\<rparr>,
                \<lparr>p_type = ''byte*'', p_name = ''nm''\<rparr>],
      del_clazz = None\<rparr>"

definition thermo_report :: CsFunc where
  "thermo_report =
     \<lparr>ret_type = ''string'', name = ''thermo_report'',
      params = [thermo_handle, \<lparr>p_type = ''int'', p_name = ''show_thermo''\<rparr>],
      del_clazz = None\<rparr>"

definition thermo_id :: CsFunc where
  "thermo_id =
     \<lparr>ret_type = ''string'', name = ''thermo_id'', params = [thermo_handle],
      del_clazz = None\<rparr>"

definition example_registry :: registry where
  "example_registry =
     [''thermo_density'' \<mapsto> thermo_density,
      ''thermo_setDensity'' \<mapsto> thermo_setDensity,
      ''thermo_nAtoms'' \<mapsto> thermo_nAtoms,
      ''thermo_getName'' \<mapsto> thermo_getName,
      ''thermo_report'' \<mapsto> thermo_report,
      ''thermo_id'' \<mapsto> thermo_id]"

section \<open>Lemmas\<close>

subsection \<open>The parameter loop\<close>

lemma double_arrays_Nil: "double_arrays [] = 0"
  by (simp add: double_arrays_def)

lemma double_arrays_Cons:
  "double_arrays (p # ps) = (if mapped_type p = ''double*'' then 1 else 0) + double_arrays ps"
  by (simp add: double_arrays_def)

lemma convert_params_not_set:
  "\<not> startswith method ''set'' \<Longrightarrow>
   convert_params nm clazz method cnt ps = Inr (map (rewritten_param clazz method) ps)"
  by (induction ps arbitrary: cnt) (simp_all add: rewritten_param_def)

lemma convert_params_set_ok:
  "startswith method ''set'' \<Longrightarrow> cnt + double_arrays ps \<le> 1 \<Longrightarrow>
   convert_params nm clazz method cnt ps = Inr (map (rewritten_param clazz method) ps)"
proof (induction ps arbitrary: cnt)
  case Nil
  then show ?case by simp
next
  case (Cons p ps)
  show ?case
  proof (cases "mapped_type p = ''double*''")
    case True
    with Cons.prems have c: "cnt = 0" and d: "Suc 0 + double_arrays ps \<le> 1"
      by (simp_all add: double_arrays_Cons)
    from Cons.IH [OF Cons.prems(1), of "Suc 0"] d
    have "convert_params nm clazz method (Suc 0) ps = Inr (map (rewritten_param clazz method) ps)"
      by simp
    with True c Cons.prems(1) show ?thesis
      by (simp add: rewritten_param_def array_type_def)
  next
    case False
    with Cons.prems have "cnt + double_arrays ps \<le> 1"
      by (simp add: double_arrays_Cons)
    from Cons.IH [OF Cons.prems(1) this] False show ?thesis
      by (simp add: rewritten_param_def)
  qed
qed

lemma convert_params_set_err:
  "startswith method ''set'' \<Longrightarrow> cnt \<le> 1 \<Longrightarrow> 1 < cnt + double_arrays ps \<Longrightarrow>
   convert_params nm clazz method cnt ps = Inl (ValueError (arity_message nm))"
proof (induction ps arbitrary: cnt)
  case Nil
  then show ?case by (simp add: double_arrays_Nil)
next
  case (Cons p ps)
  show ?case
  proof (cases "mapped_type p = ''double*''")
    case True
    show ?thesis
    proof (cases "cnt = 0")
      case c: True
      with True Cons.prems have "1 < Suc 0 + double_arrays ps"
        by (simp add: double_arrays_Cons)
      from Cons.IH [OF Cons.prems(1) _ this] True c Cons.prems(1) show ?thesis
        by simp
    next
      case False
      with True Cons.prems(1) show ?thesis by simp
    qed
  next
    case False
    with Cons.prems have "1 < cnt + double_arrays ps"
      by (simp add: double_arrays_Cons)
    from Cons.IH [OF Cons.prems(1) Cons.prems(2) this] False show ?thesis
      by simp
  qed
qed

text \<open>The loop from a count of zero, in one equation.\<close>

lemma convert_params_eq:
  "convert_params nm clazz method 0 ps =
     (if startswith method ''set'' \<and> 1 < double_arrays ps
      then Inl (ValueError (arity_message nm))
      else Inr (map (rewritten_param clazz method) ps))"
proof (cases "startswith method ''set''")
  case False
  then show ?thesis by (simp add: convert_params_not_set)
next
  case True
  show ?thesis
  proof (cases "1 < double_arrays ps")
    case t: True
    with True convert_params_set_err [of "method" 0 ps nm clazz] show ?thesis by simp
  next
    case False
    with True convert_params_set_ok [of "method" 0 ps nm clazz] show ?thesis by simp
  qed
qed

lemma p_name_rewritten_param: "p_name (rewritten_param clazz method p) = p_name p"
  by (simp add: rewritten_param_def)

subsection \<open>A handle type is no key of the type table\<close>

lemma handle_not_key: "last s \<noteq> CHR ''e'' \<Longrightarrow> h @ ''Handle'' \<noteq> s"
proof
  assume a: "last s \<noteq> CHR ''e''" and b: "h @ ''Handle'' = s"
  have "last (h @ ''Handle'') = CHR ''e''" by simp
  with a b show False by simp
qed

lemma map_type_handle: "map_type type_map (h @ ''Handle'') = h @ ''Handle''"
  by (simp add: type_map_def handle_not_key)

lemma mapped_type_handle:
  "mapped_type \<lparr>p_type = h @ ''Handle'', p_name = n\<rparr> = h @ ''Handle''"
  by (simp add: mapped_type_def map_type_handle)

lemma handle_not_double: "h @ ''Handle'' \<noteq> ''double*''"
  by (simp add: handle_not_key)

lemma rewritten_param_handle:
  "rewritten_param clazz method \<lparr>p_type = h @ ''Handle'', p_name = n\<rparr> =
     \<lparr>p_type = h @ ''Handle'', p_name = n\<rparr>"
  by (simp add: rewritten_param_def mapped_type_handle handle_not_double)

lemma double_arrays_handle:
  "double_arrays (\<lparr>p_type = h @ ''Handle'', p_name = n\<rparr> # ps) = double_arrays ps"
  by (simp add: double_arrays_Cons mapped_type_handle handle_not_double)

subsection \<open>The prefixes exclude each other\<close>

lemma del_not_new: "startswith m ''del'' \<Longrightarrow> \<not> startswith m ''new''"
  by (auto simp: startswith_def)

lemma set_not_del: "startswith m ''set'' \<Longrightarrow> \<not> startswith m ''del''"
  by (auto simp: startswith_def)

lemma set_not_new: "startswith m ''set'' \<Longrightarrow> \<not> startswith m ''new''"
  by (auto simp: startswith_def)

lemma match_set_pair_two_upper:
  "is_upper a \<Longrightarrow> is_upper b \<Longrightarrow> match_set_pair (''set_'' @ [a, b])"
  by (simp add: match_set_pair_def)

subsection \<open>The conversion after the handle substitution\<close>

lemma convert_func_after_subst:
  assumes "split_first (name parsed) = Some (clazz, method)"
    and "handle_subst config clazz method (ret_type parsed) (params parsed) = Inr (rt, ps, dc)"
  shows "convert_func config known parsed =
     (if startswith method ''set'' \<and> 1 < double_arrays ps
      then (Inl (ValueError (arity_message (name parsed))), known)
      else (Inr \<lparr>ret_type = map_type type_map rt, name = name parsed,
                 params = map (rewritten_param clazz method) ps, del_clazz = dc\<rparr>,
            known(name parsed \<mapsto>
                  \<lparr>ret_type = map_type type_map rt, name = name parsed,
                   params = map (rewritten_param clazz method) ps, del_clazz = dc\<rparr>)))"
  using assms by (simp add: convert_func_def convert_params_eq Let_def)

lemma convert_func_subst_error:
  assumes "split_first (name parsed) = Some (clazz, method)"
    and "handle_subst config clazz method (ret_type parsed) (params parsed) = Inl e"
  shows "convert_func config known parsed = (Inl e, known)"
  using assms by (simp add: convert_func_def)

section \<open>The claims about \<^verbatim>\<open>_convert_func\<close>\<close>

text \<open>
  C1. A signature named \<open>X_method\<close>, with \<open>X\<close> not the global prefix and registered in
  \<^verbatim>\<open>handle_crosswalk\<close>, and a method that starts with neither "del" nor "new": whenever
  the conversion yields a function, it is registered under the unchanged name, the
  type of parameter 0 is the handle type of \<open>X\<close> (the crosswalk entry followed by
  "Handle"), and the names of all the parameters, in their order, are those of the
  signature. The conversion yields no function in two cases only: the signature has no
  parameter (\<^verbatim>\<open>params[0]\<close> raises), or the method is a setter with more than one raw
  numeric pointer after parameter 0 (the error of C2); the registry is then unchanged.
  In every other case the conversion does yield a function.
\<close>

theorem convert_func_instance_method:
  assumes "split_first (name parsed) = Some (clazz, method)"
    and "clazz \<noteq> ''ct''"
    and "handle_crosswalk config clazz = Some h"
    and "\<not> startswith method ''del''"
    and "\<not> startswith method ''new''"
  shows "(case convert_func config known parsed of
           (Inr f, known') \<Rightarrow>
             known' = known(name parsed \<mapsto> f) \<and> params parsed \<noteq> [] \<and>
             length (params f) = length (params parsed) \<and>
             p_type (params f ! 0) = h @ ''Handle'' \<and>
             map p_name (params f) = map p_name (params parsed)
         | (Inl e, known') \<Rightarrow>
             known' = known \<and>
             (e = IndexError \<and> params parsed = [] \<or>
              e = ValueError (arity_message (name parsed)) \<and> startswith method ''set'' \<and>
              1 < double_arrays (tl (params parsed)))) \<and>
         (params parsed \<noteq> [] \<and>
          \<not> (startswith method ''set'' \<and> 1 < double_arrays (tl (params parsed))) \<longrightarrow>
            (\<exists>f. convert_func config known parsed = (Inr f, known(name parsed \<mapsto> f))))"
proof (cases "params parsed")
  case Nil
  with assms(2-5)
  have "handle_subst config clazz method (ret_type parsed) (params parsed) = Inl IndexError"
    by (simp add: handle_subst_def)
  from convert_func_subst_error [OF assms(1) this] Nil show ?thesis
    by simp
next
  case (Cons p rest)
  with assms(2-5)
  have "handle_subst config clazz method (ret_type parsed) (params parsed) =
          Inr (ret_type parsed, \<lparr>p_type = h @ ''Handle'', p_name = p_name p\<rparr> # rest, None)"
    by (simp add: handle_subst_def)
  from convert_func_after_subst [OF assms(1) this] Cons show ?thesis
    by (simp add: double_arrays_handle rewritten_param_handle p_name_rewritten_param)
qed

theorem convert_func_instance_method_witness:
  "split_first (name shape_area) = Some (''shape'', ''area'') \<and>
   ''shape'' \<noteq> ''ct'' \<and>
   handle_crosswalk example_config ''shape'' = Some ''Shape'' \<and>
   \<not> startswith ''area'' ''del'' \<and> \<not> startswith ''area'' ''new'' \<and>
   (case convert_func example_config Map.empty shape_area of
      (Inr f, known') \<Rightarrow>
        known' = [''shape_area'' \<mapsto> f] \<and> params shape_area \<noteq> [] \<and>
        length (params f) = length (params shape_area) \<and>
        p_type (params f ! 0) = ''ShapeHandle'' \<and>
        map p_name (params f) = [''n'', ''k'']
    | (Inl e, known') \<Rightarrow> False)"
proof -
  have h1: "split_first (name shape_area) = Some (''shape'', ''area'')"
    by (simp add: shape_area_def)
  have h2: "''shape'' \<noteq> ''ct''" by simp
  have h3: "handle_crosswalk example_config ''shape'' = Some ''Shape''"
    by (simp add: example_config_def)
  have h4: "\<not> startswith ''area'' ''del''" by (simp add: startswith_def)
  have h5: "\<not> startswith ''area'' ''new''" by (simp add: startswith_def)
  have s: "\<not> startswith ''area'' ''set''" by (simp add: startswith_def)
  have n: "params shape_area \<noteq> []" "name shape_area = ''shape_area''"
    "map p_name (params shape_area) = [''n'', ''k'']"
    by (simp_all add: shape_area_def int_n_def)
  from convert_func_instance_method [OF h1 h2 h3 h4 h5, of Map.empty] s n h1 h2 h3 h4 h5
  show ?thesis
    by (auto split: prod.splits sum.splits)
qed

text \<open>
  C2. A setter (the method starts with "set") whose handle substitution went through,
  with \<open>ps\<close> the parameters as the loop of line 127 reads them and their mapped types the
  values that line 137 compares with \<^verbatim>\<open>'double*'\<close>: with more than one parameter of mapped
  type \<^verbatim>\<open>'double*'\<close> the call raises the \<^verbatim>\<open>ValueError\<close> of line 143 and the registry is
  unchanged, and the loop raises it already on the parameters up to the second such
  one; with exactly one, the call returns a function, registers it, and the type of
  that parameter is \<^verbatim>\<open>'double[]'\<close> outside the thermo pair case; every parameter keeps
  its name.
\<close>

theorem setter_double_arrays:
  assumes "split_first (name parsed) = Some (clazz, method)"
    and "startswith method ''set''"
    and "handle_subst config clazz method (ret_type parsed) (params parsed) = Inr (rt, ps, dc)"
  shows "(1 < double_arrays ps \<longrightarrow>
            convert_func config known parsed =
              (Inl (ValueError (arity_message (name parsed))), known)) \<and>
         (\<forall>pre p post. ps = pre @ p # post \<and> double_arrays pre = 1 \<and>
              mapped_type p = ''double*'' \<longrightarrow>
            convert_params (name parsed) clazz method 0 (pre @ [p]) =
              Inl (ValueError (arity_message (name parsed)))) \<and>
         (double_arrays ps = 1 \<longrightarrow>
            (\<exists>f. convert_func config known parsed = (Inr f, known(name parsed \<mapsto> f)) \<and>
                 length (params f) = length ps \<and>
                 (\<forall>i<length ps.
                    p_name (params f ! i) = p_name (ps ! i) \<and>
                    p_type (params f ! i) =
                      (if mapped_type (ps ! i) = ''double*''
                       then (if clazz = ''thermo'' \<and> match_set_pair method
                             then ''(double, double)*'' else ''double[]'')
                       else mapped_type (ps ! i)))))"
proof (intro conjI impI allI)
  assume "1 < double_arrays ps"
  with convert_func_after_subst [OF assms(1) assms(3), of known] assms(2)
  show "convert_func config known parsed =
          (Inl (ValueError (arity_message (name parsed))), known)"
    by simp
next
  fix pre p post
  assume a: "ps = pre @ p # post \<and> double_arrays pre = 1 \<and> mapped_type p = ''double*''"
  then have "1 < double_arrays (pre @ [p])"
    by (simp add: double_arrays_def)
  with assms(2) show "convert_params (name parsed) clazz method 0 (pre @ [p]) =
          Inl (ValueError (arity_message (name parsed)))"
    by (simp add: convert_params_eq)
next
  assume "double_arrays ps = 1"
  with convert_func_after_subst [OF assms(1) assms(3), of known] assms(2)
  have "convert_func config known parsed =
      (Inr \<lparr>ret_type = map_type type_map rt, name = name parsed,
             params = map (rewritten_param clazz method) ps, del_clazz = dc\<rparr>,
       known(name parsed \<mapsto>
             \<lparr>ret_type = map_type type_map rt, name = name parsed,
               params = map (rewritten_param clazz method) ps, del_clazz = dc\<rparr>))"
    by simp
  with assms(2)
  show "\<exists>f. convert_func config known parsed = (Inr f, known(name parsed \<mapsto> f)) \<and>
            length (params f) = length ps \<and>
            (\<forall>i<length ps.
               p_name (params f ! i) = p_name (ps ! i) \<and>
               p_type (params f ! i) =
                 (if mapped_type (ps ! i) = ''double*''
                  then (if clazz = ''thermo'' \<and> match_set_pair method
                        then ''(double, double)*'' else ''double[]'')
                  else mapped_type (ps ! i)))"
    by (simp add: rewritten_param_def array_type_def)
qed

theorem setter_double_arrays_witness:
  "split_first (name shape_setPair) = Some (''shape'', ''setPair'') \<and>
   startswith ''setPair'' ''set'' \<and>
   handle_subst example_config ''shape'' ''setPair'' (ret_type shape_setPair)
       (params shape_setPair) =
     Inr (''int'', [\<lparr>p_type = ''ShapeHandle'', p_name = ''n''\<rparr>,
                    \<lparr>p_type = ''double*'', p_name = ''a''\<rparr>,
                    \<lparr>p_type = ''double*'', p_name = ''b''\<rparr>], None) \<and>
   1 < double_arrays [\<lparr>p_type = ''ShapeHandle'', p_name = ''n''\<rparr>,
                      \<lparr>p_type = ''double*'', p_name = ''a''\<rparr>,
                      \<lparr>p_type = ''double*'', p_name = ''b''\<rparr>] \<and>
   convert_func example_config Map.empty shape_setPair =
     (Inl (ValueError ''Cannot scaffold shape_setPair with more than one array of doubles!''),
      Map.empty) \<and>
   double_arrays [\<lparr>p_type = ''ShapeHandle'', p_name = ''n''\<rparr>,
                  \<lparr>p_type = ''double*'', p_name = ''a''\<rparr>] = 1 \<and>
   convert_params ''shape_setPair'' ''shape'' ''setPair'' 0
       [\<lparr>p_type = ''ShapeHandle'', p_name = ''n''\<rparr>,
        \<lparr>p_type = ''double*'', p_name = ''a''\<rparr>,
        \<lparr>p_type = ''double*'', p_name = ''b''\<rparr>] =
     Inl (ValueError ''Cannot scaffold shape_setPair with more than one array of doubles!'') \<and>
   split_first (name shape_setData) = Some (''shape'', ''setData'') \<and>
   startswith ''setData'' ''set'' \<and>
   handle_subst example_config ''shape'' ''setData'' (ret_type shape_setData)
       (params shape_setData) =
     Inr (''int'', [\<lparr>p_type = ''ShapeHandle'', p_name = ''n''\<rparr>,
                    \<lparr>p_type = ''size_t'', p_name = ''len''\<rparr>,
                    \<lparr>p_type = ''double*'', p_name = ''data''\<rparr>], None) \<and>
   double_arrays [\<lparr>p_type = ''ShapeHandle'', p_name = ''n''\<rparr>,
                  \<lparr>p_type = ''size_t'', p_name = ''len''\<rparr>,
                  \<lparr>p_type = ''double*'', p_name = ''data''\<rparr>] = 1 \<and>
   (\<exists>f. convert_func example_config Map.empty shape_setData = (Inr f, [''shape_setData'' \<mapsto> f]) \<and>
        length (params f) = 3 \<and>
        p_name (params f ! 2) = ''data'' \<and> p_type (params f ! 2) = ''double[]'')"
proof -
  let ?h = "\<lparr>p_type = ''ShapeHandle'', p_name = ''n''\<rparr>"
  let ?a = "\<lparr>p_type = ''double*'', p_name = ''a''\<rparr>"
  let ?b = "\<lparr>p_type = ''double*'', p_name = ''b''\<rparr>"
  let ?l = "\<lparr>p_type = ''size_t'', p_name = ''len''\<rparr>"
  let ?d = "\<lparr>p_type = ''double*'', p_name = ''data''\<rparr>"
  have m: "mapped_type ?h = ''ShapeHandle''" "mapped_type ?a = ''double*''"
    "mapped_type ?b = ''double*''" "mapped_type ?l = ''nuint''" "mapped_type ?d = ''double*''"
    by (simp_all add: mapped_type_def type_map_def)
  have p1: "split_first (name shape_setPair) = Some (''shape'', ''setPair'')"
    by (simp add: shape_setPair_def)
  have p2: "startswith ''setPair'' ''set''" by (simp add: startswith_def)
  have p3: "handle_subst example_config ''shape'' ''setPair'' (ret_type shape_setPair)
       (params shape_setPair) = Inr (''int'', [?h, ?a, ?b], None)"
    by (simp add: handle_subst_def example_config_def shape_setPair_def int_n_def startswith_def)
  have p4: "1 < double_arrays [?h, ?a, ?b]"
    by (simp add: double_arrays_def m)
  have p5: "double_arrays [?h, ?a] = 1"
    by (simp add: double_arrays_def m)
  have d1: "split_first (name shape_setData) = Some (''shape'', ''setData'')"
    by (simp add: shape_setData_def)
  have d2: "startswith ''setData'' ''set''" by (simp add: startswith_def)
  have d3: "handle_subst example_config ''shape'' ''setData'' (ret_type shape_setData)
       (params shape_setData) = Inr (''int'', [?h, ?l, ?d], None)"
    by (simp add: handle_subst_def example_config_def shape_setData_def int_n_def startswith_def)
  have d4: "double_arrays [?h, ?l, ?d] = 1"
    by (simp add: double_arrays_def m)
  have n: "name shape_setPair = ''shape_setPair''" "name shape_setData = ''shape_setData''"
    by (simp_all add: shape_setPair_def shape_setData_def)
  note P = setter_double_arrays [OF p1 p2 p3, of Map.empty]
  note D = setter_double_arrays [OF d1 d2 d3, of Map.empty]
  from P p4 have e1: "convert_func example_config Map.empty shape_setPair =
     (Inl (ValueError (arity_message (name shape_setPair))), Map.empty)"
    by blast
  from P have "[?h, ?a, ?b] = [?h, ?a] @ ?b # [] \<and> double_arrays [?h, ?a] = 1 \<and>
        mapped_type ?b = ''double*'' \<longrightarrow>
      convert_params (name shape_setPair) ''shape'' ''setPair'' 0 ([?h, ?a] @ [?b]) =
        Inl (ValueError (arity_message (name shape_setPair)))"
    by blast
  with p5 m have e2: "convert_params (name shape_setPair) ''shape'' ''setPair'' 0 [?h, ?a, ?b] =
        Inl (ValueError (arity_message (name shape_setPair)))"
    by simp
  from D d4 obtain f where
    f: "convert_func example_config Map.empty shape_setData = (Inr f, [name shape_setData \<mapsto> f])"
      "length (params f) = length [?h, ?l, ?d]"
      "\<forall>i<length [?h, ?l, ?d].
          p_name (params f ! i) = p_name ([?h, ?l, ?d] ! i) \<and>
          p_type (params f ! i) =
            (if mapped_type ([?h, ?l, ?d] ! i) = ''double*''
             then (if ''shape'' = ''thermo'' \<and> match_set_pair ''setData''
                   then ''(double, double)*'' else ''double[]'')
             else mapped_type ([?h, ?l, ?d] ! i))"
    by blast
  from f(3) have "p_name (params f ! 2) = p_name ([?h, ?l, ?d] ! 2) \<and>
          p_type (params f ! 2) =
            (if mapped_type ([?h, ?l, ?d] ! 2) = ''double*''
             then (if ''shape'' = ''thermo'' \<and> match_set_pair ''setData''
                   then ''(double, double)*'' else ''double[]'')
             else mapped_type ([?h, ?l, ?d] ! 2))"
    by simp
  with m have g: "p_name (params f ! 2) = ''data''" "p_type (params f ! 2) = ''double[]''"
    by simp_all
  from f(1,2) g n have e3: "\<exists>f. convert_func example_config Map.empty shape_setData =
        (Inr f, [''shape_setData'' \<mapsto> f]) \<and> length (params f) = 3 \<and>
        p_name (params f ! 2) = ''data'' \<and> p_type (params f ! 2) = ''double[]''"
    by auto
  from p1 p2 p3 p4 p5 d1 d2 d3 d4 e1 e2 e3 n show ?thesis
    by (simp add: arity_message_def)
qed

text \<open>
  C3. A signature of the class "thermo" whose method is "set_" followed by exactly two
  upper-case letters, with the class registered and \<open>p0\<close> the handle parameter: unless
  the error of C2 is raised, the function is returned and registered, and each further
  parameter whose mapped type is \<^verbatim>\<open>'double*'\<close> has the type \<^verbatim>\<open>'(double, double)*'\<close>, not
  \<^verbatim>\<open>'double[]'\<close>; every other parameter has its mapped type, and all keep their names.
\<close>

theorem thermo_pair_setter:
  assumes "split_first (name parsed) = Some (''thermo'', method)"
    and "method = ''set_'' @ [a, b]"
    and "is_upper a" and "is_upper b"
    and "handle_crosswalk config ''thermo'' = Some h"
    and "params parsed = p0 # rest"
  shows "convert_func config known parsed =
     (if 1 < double_arrays rest
      then (Inl (ValueError (arity_message (name parsed))), known)
      else (Inr \<lparr>ret_type = map_type type_map (ret_type parsed), name = name parsed,
                 params = \<lparr>p_type = h @ ''Handle'', p_name = p_name p0\<rparr> #
                    map (\<lambda>p. \<lparr>p_type = (if mapped_type p = ''double*''
                                         then ''(double, double)*'' else mapped_type p),
                              p_name = p_name p\<rparr>) rest,
                 del_clazz = None\<rparr>,
            known(name parsed \<mapsto>
               \<lparr>ret_type = map_type type_map (ret_type parsed), name = name parsed,
                 params = \<lparr>p_type = h @ ''Handle'', p_name = p_name p0\<rparr> #
                    map (\<lambda>p. \<lparr>p_type = (if mapped_type p = ''double*''
                                         then ''(double, double)*'' else mapped_type p),
                              p_name = p_name p\<rparr>) rest,
                 del_clazz = None\<rparr>)))"
proof -
  from assms(2) have s: "startswith method ''set''"
    by (simp add: startswith_def)
  from assms(3,4) have m: "match_set_pair method"
    unfolding assms(2) by (rule match_set_pair_two_upper)
  from s assms(5,6)
  have "handle_subst config ''thermo'' method (ret_type parsed) (params parsed) =
          Inr (ret_type parsed, \<lparr>p_type = h @ ''Handle'', p_name = p_name p0\<rparr> # rest, None)"
    by (simp add: handle_subst_def set_not_del set_not_new)
  from convert_func_after_subst [OF assms(1) this, of known] s m
  have "convert_func config known parsed =
     (if 1 < double_arrays rest
      then (Inl (ValueError (arity_message (name parsed))), known)
      else (Inr \<lparr>ret_type = map_type type_map (ret_type parsed), name = name parsed,
                 params = \<lparr>p_type = h @ ''Handle'', p_name = p_name p0\<rparr> #
                    map (rewritten_param ''thermo'' method) rest,
                 del_clazz = None\<rparr>,
            known(name parsed \<mapsto>
               \<lparr>ret_type = map_type type_map (ret_type parsed), name = name parsed,
                 params = \<lparr>p_type = h @ ''Handle'', p_name = p_name p0\<rparr> #
                    map (rewritten_param ''thermo'' method) rest,
                 del_clazz = None\<rparr>)))"
    by (simp add: double_arrays_handle rewritten_param_handle)
  moreover from s m have "rewritten_param ''thermo'' method =
      (\<lambda>p. \<lparr>p_type = (if mapped_type p = ''double*''
                       then ''(double, double)*'' else mapped_type p),
             p_name = p_name p\<rparr>)"
    by (simp add: rewritten_param_def array_type_def fun_eq_iff)
  ultimately show ?thesis by simp
qed

theorem thermo_pair_setter_witness:
  "split_first (name thermo_set_TP) = Some (''thermo'', ''set_TP'') \<and>
   ''set_TP'' = ''set_'' @ [CHR ''T'', CHR ''P''] \<and>
   is_upper (CHR ''T'') \<and> is_upper (CHR ''P'') \<and>
   handle_crosswalk example_config ''thermo'' = Some ''ThermoPhase'' \<and>
   params thermo_set_TP = int_n # [\<lparr>p_type = ''double*'', p_name = ''vals''\<rparr>] \<and>
   convert_func example_config Map.empty thermo_set_TP =
     (Inr \<lparr>ret_type = ''int'', name = ''thermo_set_TP'',
            params = [\<lparr>p_type = ''ThermoPhaseHandle'', p_name = ''n''\<rparr>,
                      \<lparr>p_type = ''(double, double)*'', p_name = ''vals''\<rparr>],
            del_clazz = None\<rparr>,
      [''thermo_set_TP'' \<mapsto>
         \<lparr>ret_type = ''int'', name = ''thermo_set_TP'',
           params = [\<lparr>p_type = ''ThermoPhaseHandle'', p_name = ''n''\<rparr>,
                     \<lparr>p_type = ''(double, double)*'', p_name = ''vals''\<rparr>],
           del_clazz = None\<rparr>])"
proof -
  have h1: "split_first (name thermo_set_TP) = Some (''thermo'', ''set_TP'')"
    by (simp add: thermo_set_TP_def)
  have h2: "''set_TP'' = ''set_'' @ [CHR ''T'', CHR ''P'']" by simp
  have h3: "is_upper (CHR ''T'')" by (simp add: is_upper_def)
  have h4: "is_upper (CHR ''P'')" by (simp add: is_upper_def)
  have h5: "handle_crosswalk example_config ''thermo'' = Some ''ThermoPhase''"
    by (simp add: example_config_def)
  have h6: "params thermo_set_TP = int_n # [\<lparr>p_type = ''double*'', p_name = ''vals''\<rparr>]"
    by (simp add: thermo_set_TP_def)
  have m: "mapped_type \<lparr>p_type = ''double*'', p_name = ''vals''\<rparr> = ''double*''"
    "map_type type_map ''int'' = ''int''"
    by (simp_all add: mapped_type_def type_map_def)
  have d: "\<not> 1 < double_arrays [\<lparr>p_type = ''double*'', p_name = ''vals''\<rparr>]"
    by (simp add: double_arrays_def)
  have n: "name thermo_set_TP = ''thermo_set_TP''" "ret_type thermo_set_TP = ''int''"
    "p_name int_n = ''n''"
    by (simp_all add: thermo_set_TP_def int_n_def)
  note T = thermo_pair_setter [OF h1 h2 h3 h4 h5 h6, of Map.empty]
  from d have c: "convert_func example_config Map.empty thermo_set_TP =
      (Inr \<lparr>ret_type = map_type type_map (ret_type thermo_set_TP), name = name thermo_set_TP,
             params = \<lparr>p_type = ''ThermoPhase'' @ ''Handle'', p_name = p_name int_n\<rparr> #
                map (\<lambda>p. \<lparr>p_type = (if mapped_type p = ''double*''
                                     then ''(double, double)*'' else mapped_type p),
                          p_name = p_name p\<rparr>) [\<lparr>p_type = ''double*'', p_name = ''vals''\<rparr>],
             del_clazz = None\<rparr>,
       [name thermo_set_TP \<mapsto>
           \<lparr>ret_type = map_type type_map (ret_type thermo_set_TP), name = name thermo_set_TP,
             params = \<lparr>p_type = ''ThermoPhase'' @ ''Handle'', p_name = p_name int_n\<rparr> #
                map (\<lambda>p. \<lparr>p_type = (if mapped_type p = ''double*''
                                     then ''(double, double)*'' else mapped_type p),
                          p_name = p_name p\<rparr>) [\<lparr>p_type = ''double*'', p_name = ''vals''\<rparr>],
             del_clazz = None\<rparr>])"
    by (simp only: T if_False)
  have e: "convert_func example_config Map.empty thermo_set_TP =
     (Inr \<lparr>ret_type = ''int'', name = ''thermo_set_TP'',
            params = [\<lparr>p_type = ''ThermoPhaseHandle'', p_name = ''n''\<rparr>,
                      \<lparr>p_type = ''(double, double)*'', p_name = ''vals''\<rparr>],
            del_clazz = None\<rparr>,
      [''thermo_set_TP'' \<mapsto>
         \<lparr>ret_type = ''int'', name = ''thermo_set_TP'',
           params = [\<lparr>p_type = ''ThermoPhaseHandle'', p_name = ''n''\<rparr>,
                     \<lparr>p_type = ''(double, double)*'', p_name = ''vals''\<rparr>],
           del_clazz = None\<rparr>])"
    unfolding c by (simp add: m n)
  from h1 h2 h3 h4 h5 h6 e show ?thesis by blast
qed

text \<open>
  C5. A signature of a registered class other than the global one. A method that starts
  with "del" always converts: \<^verbatim>\<open>del_clazz\<close> is the handle type and the return type is
  the native one after the type table, with no handle put in its place. A method that
  starts with "new" always converts: the return type is the handle type and
  \<^verbatim>\<open>del_clazz\<close> is \<^verbatim>\<open>None\<close>. In both cases no parameter is replaced by the handle.
\<close>

theorem convert_func_del_new:
  assumes "split_first (name parsed) = Some (clazz, method)"
    and "clazz \<noteq> ''ct''"
    and "handle_crosswalk config clazz = Some h"
  shows "(startswith method ''del'' \<longrightarrow>
            (\<exists>f. convert_func config known parsed = (Inr f, known(name parsed \<mapsto> f)) \<and>
                 del_clazz f = Some (h @ ''Handle'') \<and>
                 ret_type f = map_type type_map (ret_type parsed) \<and>
                 name f = name parsed \<and>
                 params f = map (\<lambda>p. \<lparr>p_type = mapped_type p, p_name = p_name p\<rparr>)
                                (params parsed))) \<and>
         (startswith method ''new'' \<longrightarrow>
            (\<exists>f. convert_func config known parsed = (Inr f, known(name parsed \<mapsto> f)) \<and>
                 ret_type f = h @ ''Handle'' \<and>
                 del_clazz f = None \<and>
                 name f = name parsed \<and>
                 params f = map (\<lambda>p. \<lparr>p_type = mapped_type p, p_name = p_name p\<rparr>)
                                (params parsed)))"
proof (intro conjI impI)
  assume d: "startswith method ''del''"
  then have s: "\<not> startswith method ''set''" using set_not_del by blast
  from d assms(2,3)
  have "handle_subst config clazz method (ret_type parsed) (params parsed) =
          Inr (ret_type parsed, params parsed, Some (h @ ''Handle''))"
    by (simp add: handle_subst_def)
  from convert_func_after_subst [OF assms(1) this, of known] s
  show "\<exists>f. convert_func config known parsed = (Inr f, known(name parsed \<mapsto> f)) \<and>
            del_clazz f = Some (h @ ''Handle'') \<and>
            ret_type f = map_type type_map (ret_type parsed) \<and>
            name f = name parsed \<and>
            params f = map (\<lambda>p. \<lparr>p_type = mapped_type p, p_name = p_name p\<rparr>) (params parsed)"
    by (simp add: rewritten_param_def)
next
  assume n: "startswith method ''new''"
  then have s: "\<not> startswith method ''set''" using set_not_new by blast
  from n have d: "\<not> startswith method ''del''" using del_not_new by blast
  from n d assms(2,3)
  have "handle_subst config clazz method (ret_type parsed) (params parsed) =
          Inr (h @ ''Handle'', params parsed, None)"
    by (simp add: handle_subst_def)
  from convert_func_after_subst [OF assms(1) this, of known] s
  show "\<exists>f. convert_func config known parsed = (Inr f, known(name parsed \<mapsto> f)) \<and>
            ret_type f = h @ ''Handle'' \<and>
            del_clazz f = None \<and>
            name f = name parsed \<and>
            params f = map (\<lambda>p. \<lparr>p_type = mapped_type p, p_name = p_name p\<rparr>) (params parsed)"
    by (simp add: rewritten_param_def map_type_handle)
qed

theorem convert_func_del_new_witness:
  "split_first (name shape_del) = Some (''shape'', ''del'') \<and>
   split_first (name shape_new) = Some (''shape'', ''new'') \<and>
   ''shape'' \<noteq> ''ct'' \<and>
   handle_crosswalk example_config ''shape'' = Some ''Shape'' \<and>
   startswith ''del'' ''del'' \<and> startswith ''new'' ''new'' \<and>
   (\<exists>f. convert_func example_config Map.empty shape_del = (Inr f, [''shape_del'' \<mapsto> f]) \<and>
        del_clazz f = Some ''ShapeHandle'' \<and> ret_type f = ''int'' \<and>
        params f = [\<lparr>p_type = ''int'', p_name = ''n''\<rparr>]) \<and>
   (\<exists>f. convert_func example_config Map.empty shape_new = (Inr f, [''shape_new'' \<mapsto> f]) \<and>
        ret_type f = ''ShapeHandle'' \<and> del_clazz f = None \<and> params f = [])"
proof -
  have d1: "split_first (name shape_del) = Some (''shape'', ''del'')"
    by (simp add: shape_del_def)
  have n1: "split_first (name shape_new) = Some (''shape'', ''new'')"
    by (simp add: shape_new_def)
  have h2: "''shape'' \<noteq> ''ct''" by simp
  have h3: "handle_crosswalk example_config ''shape'' = Some ''Shape''"
    by (simp add: example_config_def)
  have sd: "startswith ''del'' ''del''" and sn: "startswith ''new'' ''new''"
    by (simp_all add: startswith_def)
  have v: "name shape_del = ''shape_del''" "name shape_new = ''shape_new''"
    "map_type type_map (ret_type shape_del) = ''int''"
    "map (\<lambda>p. \<lparr>p_type = mapped_type p, p_name = p_name p\<rparr>) (params shape_del) =
       [\<lparr>p_type = ''int'', p_name = ''n''\<rparr>]"
    "params shape_new = []"
    by (simp_all add: shape_del_def shape_new_def int_n_def mapped_type_def type_map_def)
  from convert_func_del_new [OF d1 h2 h3, of Map.empty] sd obtain f where
    f: "convert_func example_config Map.empty shape_del = (Inr f, [name shape_del \<mapsto> f])"
      "del_clazz f = Some (''Shape'' @ ''Handle'')"
      "ret_type f = map_type type_map (ret_type shape_del)"
      "params f = map (\<lambda>p. \<lparr>p_type = mapped_type p, p_name = p_name p\<rparr>) (params shape_del)"
    by blast
  from f v have "convert_func example_config Map.empty shape_del = (Inr f, [''shape_del'' \<mapsto> f]) \<and>
        del_clazz f = Some ''ShapeHandle'' \<and> ret_type f = ''int'' \<and>
        params f = [\<lparr>p_type = ''int'', p_name = ''n''\<rparr>]"
    by simp
  then have a: "\<exists>f. convert_func example_config Map.empty shape_del = (Inr f, [''shape_del'' \<mapsto> f]) \<and>
        del_clazz f = Some ''ShapeHandle'' \<and> ret_type f = ''int'' \<and>
        params f = [\<lparr>p_type = ''int'', p_name = ''n''\<rparr>]"
    by blast
  from convert_func_del_new [OF n1 h2 h3, of Map.empty] sn obtain g where
    g: "convert_func example_config Map.empty shape_new = (Inr g, [name shape_new \<mapsto> g])"
      "ret_type g = ''Shape'' @ ''Handle''"
      "del_clazz g = None"
      "params g = map (\<lambda>p. \<lparr>p_type = mapped_type p, p_name = p_name p\<rparr>) (params shape_new)"
    by blast
  from g v have "convert_func example_config Map.empty shape_new = (Inr g, [''shape_new'' \<mapsto> g]) \<and>
        ret_type g = ''ShapeHandle'' \<and> del_clazz g = None \<and> params g = []"
    by simp
  then have b: "\<exists>f. convert_func example_config Map.empty shape_new = (Inr f, [''shape_new'' \<mapsto> f]) \<and>
        ret_type f = ''ShapeHandle'' \<and> del_clazz f = None \<and> params f = []"
    by blast
  from a b d1 n1 h2 h3 sd sn show ?thesis by blast
qed

text \<open>
  C6. A signature whose class prefix is not the global one and has no entry in
  \<^verbatim>\<open>handle_crosswalk\<close>: the call raises \<^verbatim>\<open>KeyError\<close> for the class, and the registry
  after the call is the registry before it.
\<close>

theorem convert_func_unknown_class:
  assumes "split_first (name parsed) = Some (clazz, method)"
    and "clazz \<noteq> ''ct''"
    and "handle_crosswalk config clazz = None"
  shows "convert_func config known parsed = (Inl (KeyError clazz), known)"
proof -
  from assms(2,3)
  have "handle_subst config clazz method (ret_type parsed) (params parsed) = Inl (KeyError clazz)"
    by (simp add: handle_subst_def)
  from convert_func_subst_error [OF assms(1) this] show ?thesis .
qed

theorem convert_func_unknown_class_witness:
  "split_first (name thing_size) = Some (''thing'', ''size'') \<and>
   ''thing'' \<noteq> ''ct'' \<and>
   handle_crosswalk example_config ''thing'' = None \<and>
   convert_func example_config Map.empty thing_size = (Inl (KeyError ''thing''), Map.empty)"
proof -
  have h1: "split_first (name thing_size) = Some (''thing'', ''size'')"
    by (simp add: thing_size_def)
  have h2: "''thing'' \<noteq> ''ct''" by simp
  have h3: "handle_crosswalk example_config ''thing'' = None"
    by (simp add: example_config_def)
  from convert_func_unknown_class [OF h1 h2 h3, of Map.empty] h1 h2 h3
  show ?thesis by simp
qed

text \<open>
  C7. A signature whose class prefix is the global prefix "ct": the result does not
  depend on the configuration, the return type is the native one after the type table,
  \<^verbatim>\<open>del_clazz\<close> is \<^verbatim>\<open>None\<close>, and every parameter, whatever their number, has its mapped
  type, or \<^verbatim>\<open>'double[]'\<close> by the setter rule; the only error is that of C2.
\<close>

theorem convert_func_global:
  assumes "split_first (name parsed) = Some (''ct'', method)"
  shows "convert_func config known parsed =
     (if startswith method ''set'' \<and> 1 < double_arrays (params parsed)
      then (Inl (ValueError (arity_message (name parsed))), known)
      else (Inr \<lparr>ret_type = map_type type_map (ret_type parsed), name = name parsed,
                 params = map (\<lambda>p. \<lparr>p_type = (if mapped_type p = ''double*'' \<and>
                                                  startswith method ''set''
                                               then ''double[]'' else mapped_type p),
                                    p_name = p_name p\<rparr>) (params parsed),
                 del_clazz = None\<rparr>,
            known(name parsed \<mapsto>
               \<lparr>ret_type = map_type type_map (ret_type parsed), name = name parsed,
                 params = map (\<lambda>p. \<lparr>p_type = (if mapped_type p = ''double*'' \<and>
                                                  startswith method ''set''
                                               then ''double[]'' else mapped_type p),
                                    p_name = p_name p\<rparr>) (params parsed),
                 del_clazz = None\<rparr>)))"
proof -
  have "handle_subst config ''ct'' method (ret_type parsed) (params parsed) =
          Inr (ret_type parsed, params parsed, None)"
    by (simp add: handle_subst_def)
  from convert_func_after_subst [OF assms this, of known]
  have "convert_func config known parsed =
     (if startswith method ''set'' \<and> 1 < double_arrays (params parsed)
      then (Inl (ValueError (arity_message (name parsed))), known)
      else (Inr \<lparr>ret_type = map_type type_map (ret_type parsed), name = name parsed,
                 params = map (rewritten_param ''ct'' method) (params parsed),
                 del_clazz = None\<rparr>,
            known(name parsed \<mapsto>
               \<lparr>ret_type = map_type type_map (ret_type parsed), name = name parsed,
                 params = map (rewritten_param ''ct'' method) (params parsed),
                 del_clazz = None\<rparr>)))" .
  moreover have "rewritten_param ''ct'' method =
      (\<lambda>p. \<lparr>p_type = (if mapped_type p = ''double*'' \<and> startswith method ''set''
                       then ''double[]'' else mapped_type p),
             p_name = p_name p\<rparr>)"
    by (simp add: rewritten_param_def array_type_def fun_eq_iff)
  ultimately show ?thesis by simp
qed

theorem convert_func_global_witness:
  "split_first (name ct_setLogWriter) = Some (''ct'', ''setLogWriter'') \<and>
   convert_func example_config Map.empty ct_setLogWriter =
     (Inr \<lparr>ret_type = ''string'', name = ''ct_setLogWriter'',
            params = [\<lparr>p_type = ''double[]'', p_name = ''buf''\<rparr>,
                      \<lparr>p_type = ''byte*'', p_name = ''msg''\<rparr>],
            del_clazz = None\<rparr>,
      [''ct_setLogWriter'' \<mapsto>
         \<lparr>ret_type = ''string'', name = ''ct_setLogWriter'',
           params = [\<lparr>p_type = ''double[]'', p_name = ''buf''\<rparr>,
                     \<lparr>p_type = ''byte*'', p_name = ''msg''\<rparr>],
           del_clazz = None\<rparr>])"
proof -
  have h1: "split_first (name ct_setLogWriter) = Some (''ct'', ''setLogWriter'')"
    by (simp add: ct_setLogWriter_def)
  have s: "startswith ''setLogWriter'' ''set''" by (simp add: startswith_def)
  have m: "mapped_type \<lparr>p_type = ''double*'', p_name = ''buf''\<rparr> = ''double*''"
    "mapped_type \<lparr>p_type = ''char*'', p_name = ''msg''\<rparr> = ''byte*''"
    "map_type type_map ''const char*'' = ''string''"
    by (simp_all add: mapped_type_def type_map_def)
  have v: "name ct_setLogWriter = ''ct_setLogWriter''"
    "ret_type ct_setLogWriter = ''const char*''"
    "params ct_setLogWriter =
       [\<lparr>p_type = ''double*'', p_name = ''buf''\<rparr>, \<lparr>p_type = ''char*'', p_name = ''msg''\<rparr>]"
    by (simp_all add: ct_setLogWriter_def)
  have d: "\<not> 1 < double_arrays (params ct_setLogWriter)"
    by (simp add: double_arrays_def v m)
  from convert_func_global [OF h1, of example_config Map.empty] d s m v h1
  show ?thesis by simp
qed

section \<open>The declarations of a unit\<close>

lemma convert_func_result_indep:
  "fst (convert_func config known1 parsed) = fst (convert_func config known2 parsed)"
  by (simp add: convert_func_def Let_def split: option.splits sum.splits prod.splits)

lemma cs_funcs_result_indep:
  "fst (cs_funcs config known1 funcs) = fst (cs_funcs config known2 funcs)"
proof (induction funcs arbitrary: known1 known2)
  case Nil
  show ?case by simp
next
  case (Cons f fs)
  obtain r1 k1 where c1: "convert_func config known1 f = (r1, k1)"
    by (cases "convert_func config known1 f")
  obtain r2 k2 where c2: "convert_func config known2 f = (r2, k2)"
    by (cases "convert_func config known2 f")
  from convert_func_result_indep [of config known1 f known2] c1 c2 have r: "r2 = r1"
    by simp
  show ?case
  proof (cases r1)
    case (Inl e)
    with c1 c2 r show ?thesis by simp
  next
    case (Inr cf)
    from Cons.IH [of k1 k2] have "fst (cs_funcs config k1 fs) = fst (cs_funcs config k2 fs)" .
    with Inr c1 c2 r show ?thesis
      by (cases "cs_funcs config k1 fs"; cases "cs_funcs config k2 fs")
         (auto split: sum.splits)
  qed
qed

text \<open>
  The conversion never reads the registry: the declaration texts of a unit, or the
  error, are the same from any starting registry, and so is the joined
  \<^verbatim>\<open>functions_text\<close>.
\<close>

lemma declaration_texts_registry_indep:
  "declaration_texts normalise config known1 funcs =
     declaration_texts normalise config known2 funcs \<and>
   functions_text normalise config known1 funcs =
     functions_text normalise config known2 funcs"
proof -
  have "declaration_texts normalise config known1 funcs =
          declaration_texts normalise config known2 funcs"
    by (simp add: declaration_texts_def cs_funcs_result_indep [of config known1 funcs known2])
  then show ?thesis
    by (simp add: functions_text_def)
qed

section \<open>The declaration of one function\<close>

lemma py_any_iff: "py_any bs = (True \<in> set bs)"
  by (induction bs) auto

lemma endswith_star: "endswith t ''*'' = (t \<noteq> [] \<and> last t = CHR ''*'')"
proof (cases t rule: rev_cases)
  case Nil
  then show ?thesis by (simp add: endswith_def)
next
  case (snoc ys y)
  then show ?thesis by (simp add: endswith_def)
qed

lemma py_join_Cons: "py_join sep (x # xs) = x @ concat (map (\<lambda>y. sep @ y) xs)"
  by (induction xs arbitrary: x) simp_all

text \<open>
  C9. The declaration of a converted function is the prolog, the word "unsafe" exactly
  when some parameter has a type that ends in \<^verbatim>\<open>*\<close>, the return type, the name, and
  between parentheses the parameters in their order, each as its type, a space and its
  name, separated by a comma and a space. The types \<^verbatim>\<open>string\<close> and \<^verbatim>\<open>double[]\<close> do not end
  in \<^verbatim>\<open>*\<close>.
\<close>

theorem get_function_text_unsafe:
  "get_function_text normalise f =
     prolog normalise
     @ (if \<exists>p \<in> set (params f). p_type p \<noteq> [] \<and> last (p_type p) = CHR ''*''
        then '' unsafe '' else '' '')
     @ ret_type f @ '' '' @ name f @ ''(''
     @ (case params f of
          [] \<Rightarrow> []
        | p # ps \<Rightarrow> (p_type p @ '' '' @ p_name p)
                    @ concat (map (\<lambda>q. '', '' @ p_type q @ '' '' @ p_name q) ps))
     @ '');'' \<and>
   \<not> endswith ''string'' ''*'' \<and> \<not> endswith ''double[]'' ''*''"
proof -
  have a: "py_any (map (\<lambda>p. endswith (p_type p) ''*'') (params f)) =
        (\<exists>p \<in> set (params f). p_type p \<noteq> [] \<and> last (p_type p) = CHR ''*'')"
    by (auto simp: py_any_iff endswith_star)
  have j: "join_params (params f) =
        (case params f of
          [] \<Rightarrow> []
        | p # ps \<Rightarrow> (p_type p @ '' '' @ p_name p)
                    @ concat (map (\<lambda>q. '', '' @ p_type q @ '' '' @ p_name q) ps))"
    by (cases "params f") (simp_all add: join_params_def py_join_Cons comp_def)
  have e: "\<not> endswith ''string'' ''*''" "\<not> endswith ''double[]'' ''*''"
    by (simp_all add: endswith_star)
  show ?thesis
    unfolding get_function_text_def Let_def a j using e by simp
qed

theorem get_function_text_unsafe_witness:
  "get_function_text id thermo_getName =
     prolog id @ '' unsafe int thermo_getName(ThermoPhaseHandle n, nuint lennm, byte* nm);'' \<and>
   get_function_text id thermo_setDensity =
     prolog id @ '' int thermo_setDensity(ThermoPhaseHandle n, double rho);''"
proof -
  have a: "(\<exists>p \<in> set (params thermo_getName). p_type p \<noteq> [] \<and> last (p_type p) = CHR ''*'')"
    by (simp add: thermo_getName_def thermo_handle_def)
  have b: "\<not> (\<exists>p \<in> set (params thermo_setDensity). p_type p \<noteq> [] \<and> last (p_type p) = CHR ''*'')"
    by (simp add: thermo_setDensity_def thermo_handle_def)
  from get_function_text_unsafe [of id thermo_getName] a
  have "get_function_text id thermo_getName =
     prolog id @ '' unsafe int thermo_getName(ThermoPhaseHandle n, nuint lennm, byte* nm);''"
    by (simp add: thermo_getName_def thermo_handle_def)
  moreover from get_function_text_unsafe [of id thermo_setDensity] b
  have "get_function_text id thermo_setDensity =
     prolog id @ '' int thermo_setDensity(ThermoPhaseHandle n, double rho);''"
    by (simp add: thermo_setDensity_def thermo_handle_def)
  ultimately show ?thesis by simp
qed

section \<open>The claims about \<^verbatim>\<open>_get_property_text\<close>\<close>

lemma capitalize_report: "capitalize ''report'' = ''Report''"
  by code_simp

lemma capitalize_id: "capitalize ''id'' = ''Id''"
  by code_simp


lemma resolve_getter_scalar:
  "known (clazz @ ''_'' @ c_name) = Some getter \<Longrightarrow>
   resolve_getter known clazz c_name = Inr (getter, ret_type getter)"
  by (simp add: resolve_getter_def)

text \<open>
  A getter found under the scalar name whose return type is \<^verbatim>\<open>int\<close> or \<^verbatim>\<open>double\<close> gives
  the scalar accessor, and one whose return type is none of \<^verbatim>\<open>int\<close>, \<^verbatim>\<open>double\<close> and
  \<^verbatim>\<open>string\<close> raises the \<^verbatim>\<open>ValueError\<close> of line 214, whose message names the type.
\<close>

lemma scalar_getter_numeric_or_unsupported:
  assumes "known (clazz @ ''_'' @ c_name) = Some getter"
  shows "(ret_type getter \<in> set [''int'', ''double''] \<longrightarrow>
            get_property_text normalise known clazz c_name cs_name =
              Inr (normalise (scalar_getter_text (ret_type getter) cs_name (name getter)
                     @ setter_text (known (clazz @ ''_set'' @ capitalize c_name))
                     @ closing_text))) \<and>
         (ret_type getter \<notin> set [''int'', ''double'', ''string''] \<longrightarrow>
            get_property_text normalise known clazz c_name cs_name =
              Inl (ValueError (''Unable to scaffold properties of type '' @ ret_type getter
                               @ ''!'')))"
  using resolve_getter_scalar [of known clazz c_name getter, OF assms]
  by (auto simp: get_property_text_def unsupported_message_def)

text \<open>
  C4. The claim: a getter registered as class, underscore, native name makes a scalar
  property whose type is restricted to \<^verbatim>\<open>int\<close> and \<^verbatim>\<open>double\<close>, and every other return
  type makes rendering fail with an error that names the type. The code breaks this
  for the return type \<^verbatim>\<open>string\<close>. The getter \<open>thermo_report\<close>, found under the scalar
  name (the branch the comment of line 166 calls a simple scalar property), has two
  parameters and returns \<^verbatim>\<open>string\<close>: no error is raised, and the branch written for
  get-string functions (lines 192 to 203) emits a call of \<open>thermo_report\<close> with three
  arguments. The getter \<open>thermo_id\<close>, with one parameter, raises \<^verbatim>\<open>IndexError\<close> at line
  193, not the \<^verbatim>\<open>ValueError\<close> that names the type.
\<close>

theorem scalar_getter_string_not_rejected:
  "example_registry (''thermo'' @ ''_'' @ ''report'') = Some thermo_report \<and>
   ret_type thermo_report = ''string'' \<and>
   ret_type thermo_report \<notin> set [''int'', ''double''] \<and>
   length (params thermo_report) = 2 \<and>
   get_property_text id example_registry ''thermo'' ''report'' ''Report'' =
     Inr (NL @ sp 16 @ ''public unsafe string Report''
          @ NL @ sp 16 @ ''{''
          @ NL @ sp 20 @ ''get => InteropUtil.GetString(40, (length, buffer) =>''
          @ NL @ sp 24 @ ''LibCantera.thermo_report(_handle, (int) length, buffer));''
          @ NL @ sp 12 @ closing_text) \<and>
   get_property_text id example_registry ''thermo'' ''report'' ''Report'' \<noteq>
     Inl (ValueError ''Unable to scaffold properties of type string!'') \<and>
   example_registry (''thermo'' @ ''_'' @ ''id'') = Some thermo_id \<and>
   ret_type thermo_id = ''string'' \<and>
   length (params thermo_id) = 1 \<and>
   get_property_text id example_registry ''thermo'' ''id'' ''Id'' = Inl IndexError"
proof -
  have k: "example_registry (''thermo'' @ ''_'' @ ''report'') = Some thermo_report"
    by (simp add: example_registry_def)
  have s: "example_registry (''thermo'' @ ''_set'' @ capitalize ''report'') = None"
    by (simp only: capitalize_report) (simp add: example_registry_def)
  have r: "ret_type thermo_report = ''string''" "name thermo_report = ''thermo_report''"
    "length (params thermo_report) = 2" "p_type (params thermo_report ! 1) = ''int''"
    by (simp_all add: thermo_report_def)
  from resolve_getter_scalar [of example_registry "''thermo''" "''report''" thermo_report, OF k]
    s r
  have e1: "get_property_text id example_registry ''thermo'' ''report'' ''Report'' =
     Inr (NL @ sp 16 @ ''public unsafe string Report''
          @ NL @ sp 16 @ ''{''
          @ NL @ sp 20 @ ''get => InteropUtil.GetString(40, (length, buffer) =>''
          @ NL @ sp 24 @ ''LibCantera.thermo_report(_handle, (int) length, buffer));''
          @ NL @ sp 12 @ closing_text)"
    by (simp add: get_property_text_def setter_text_def string_getter_text_def)
  have k2: "example_registry (''thermo'' @ ''_'' @ ''id'') = Some thermo_id"
    by (simp add: example_registry_def)
  have r2: "ret_type thermo_id = ''string''" "length (params thermo_id) = 1"
    by (simp_all add: thermo_id_def)
  from resolve_getter_scalar [of example_registry "''thermo''" "''id''" thermo_id, OF k2] r2
  have e2: "get_property_text id example_registry ''thermo'' ''id'' ''Id'' = Inl IndexError"
    by (simp add: get_property_text_def)
  from k r e1 k2 r2 e2 show ?thesis by simp
qed



end
